theory Spec2Isabelle
  imports Main
begin

section \<open>Data model (types.ts)\<close>

text \<open>
  JavaScript strings are modelled as \<open>string\<close>. The functions below only compare
  strings, append them and cut them at commas, so the difference between bytes and
  UTF-16 code units is not observed.
\<close>

datatype VideoType = SHORT | LONG

datatype AnimationStyle =
  DISNEY_PIXAR | ANIME_SHINKAI | CINEMATIC_REALISTIC | HAND_DRAWN_SKETCHY | CLAYMATION | CYBERPUNK

text \<open>The string value of each enum member, as the template literals print it.\<close>

fun VideoType_value :: "VideoType \<Rightarrow> string" where
  "VideoType_value SHORT = ''YouTube Shorts (Vertical 9:16)''"
| "VideoType_value LONG = ''YouTube Long (Horizontal 16:9)''"

fun AnimationStyle_value :: "AnimationStyle \<Rightarrow> string" where
  "AnimationStyle_value DISNEY_PIXAR = ''Disney/Pixar 3D Style''"
| "AnimationStyle_value ANIME_SHINKAI = ''Anime Makoto Shinkai Style''"
| "AnimationStyle_value CINEMATIC_REALISTIC = ''Cinematic Realistic''"
| "AnimationStyle_value HAND_DRAWN_SKETCHY = ''Hand-drawn Sketchy''"
| "AnimationStyle_value CLAYMATION = ''Claymation / Stop Motion''"
| "AnimationStyle_value CYBERPUNK = ''Cyberpunk / Sci-Fi 3D''"

text \<open>
  The three interfaces share the field names \<open>id\<close> and \<open>name\<close>; the records prefix
  them. An optional field (\<open>personality?\<close>, \<open>generatedImageUrl?\<close>) is an \<open>option\<close>,
  \<open>None\<close> being \<open>undefined\<close>. \<open>sceneNumber\<close> is an integer-valued number.
\<close>

record Character =
  char_id :: string
  char_name :: string
  description :: string
  features :: string
  personality :: "string option"

record Scene =
  scene_id :: string
  sceneNumber :: int
  script :: string
  visualPrompt :: string
  duration :: string
  generatedImageUrl :: "string option"
  isGeneratingImage :: "bool option"

record Project =
  proj_id :: string
  proj_name :: string
  proj_type :: VideoType
  proj_style :: AnimationStyle
  createdAt :: int
  characters :: "Character list"
  scenes :: "Scene list"
  storyIdea :: string

section \<open>JavaScript string primitives used by the code\<close>

definition digit_char :: "nat \<Rightarrow> char" where
  "digit_char d =
     (if d = 0 then CHR ''0'' else if d = 1 then CHR ''1'' else if d = 2 then CHR ''2''
      else if d = 3 then CHR ''3'' else if d = 4 then CHR ''4'' else if d = 5 then CHR ''5''
      else if d = 6 then CHR ''6'' else if d = 7 then CHR ''7'' else if d = 8 then CHR ''8''
      else CHR ''9'')"

fun nat_digits :: "nat \<Rightarrow> string" where
  "nat_digits n =
     (if n < 10 then [digit_char n] else nat_digits (n div 10) @ [digit_char (n mod 10)])"

declare nat_digits.simps [simp del]

text \<open>
  \<open>String(n)\<close> and \<open>${n}\<close> for an integer-valued number: the decimal digits, with a
  leading minus sign below zero (the decimal form is what JavaScript prints for
  integers of magnitude below \<open>10^21\<close>).
\<close>

definition String_of_int :: "int \<Rightarrow> string" where
  "String_of_int n = (if n < 0 then CHR ''-'' # nat_digits (nat (- n)) else nat_digits (nat n))"

text \<open>
  \<open>s.padStart(targetLength, padString)\<close>: the pad string is repeated and cut to the
  missing length; a string already long enough, or an empty pad string, leaves \<open>s\<close>.
\<close>

definition padStart :: "nat \<Rightarrow> string \<Rightarrow> string \<Rightarrow> string" where
  "padStart targetLength padString s =
     (if targetLength \<le> length s \<or> padString = [] then s
      else take (targetLength - length s)
             (concat (replicate (targetLength - length s) padString)) @ s)"

text \<open>\<open>s.split(c)\<close> for a one-character separator: never an empty array.\<close>

fun split_char :: "char \<Rightarrow> string \<Rightarrow> string list" where
  "split_char c [] = [[]]"
| "split_char c (x # xs) =
     (if x = c then [] # split_char c xs
      else (case split_char c xs of
              [] \<Rightarrow> [[x]]
            | p # ps \<Rightarrow> (x # p) # ps))"

text \<open>\<open>arr[i]\<close>: \<open>undefined\<close> (here \<open>None\<close>) out of range.\<close>

fun index_opt :: "'a list \<Rightarrow> nat \<Rightarrow> 'a option" where
  "index_opt [] i = None"
| "index_opt (x # xs) 0 = Some x"
| "index_opt (x # xs) (Suc i) = index_opt xs i"

text \<open>Truthiness of a possibly undefined string: \<open>undefined\<close> and \<open>""\<close> are falsy.\<close>

fun truthy :: "string option \<Rightarrow> bool" where
  "truthy None = False"
| "truthy (Some s) = (s \<noteq> [])"

text \<open>\<open>x || d\<close> on a possibly undefined string.\<close>

fun or_default :: "string option \<Rightarrow> string \<Rightarrow> string" where
  "or_default None d = d"
| "or_default (Some s) d = (if s = [] then d else s)"

section \<open>Asset export (Storyboard.handleDownloadAssets)\<close>

text \<open>
  The archive under construction: JSZip keeps one entry per name, and \<open>zip.file\<close> on
  an existing name replaces that entry's data. The data is kept as handed over:
  base64 text for an image, plain text for the manifest.
\<close>

datatype zip_data = Base64Data string | TextData string

type_synonym JSZip = "(string \<times> zip_data) list"

fun zip_file :: "string \<Rightarrow> zip_data \<Rightarrow> JSZip \<Rightarrow> JSZip" where
  "zip_file n d [] = [(n, d)]"
| "zip_file n d ((k, v) # rest) =
     (if k = n then (n, d) # rest else (k, v) # zip_file n d rest)"

definition NL :: string where
  "NL = [CHR 0x0A]"

definition DQ :: string where
  "DQ = [CHR 0x22]"

definition imageName :: "Scene \<Rightarrow> string" where
  "imageName scene = ''scene_'' @ padStart 3 ''0'' (String_of_int (sceneNumber scene)) @ ''.png''"

definition scriptHeader :: "Project \<Rightarrow> string" where
  "scriptHeader project =
     ''Project: '' @ proj_name project @ NL @
     ''Style: '' @ AnimationStyle_value (proj_style project) @ NL @
     ''Type: '' @ VideoType_value (proj_type project) @ NL @
     ''Story Idea: '' @ storyIdea project @ NL @ NL @
     ''================================================'' @ NL @ NL"

text \<open>The body of \<open>project.scenes.forEach\<close>, on the pair of the archive and \<open>scriptContent\<close>.\<close>

definition exportScene :: "Scene \<Rightarrow> JSZip \<times> string \<Rightarrow> JSZip \<times> string" where
  "exportScene scene st =
     (let zip' = fst st;
          scriptContent0 = snd st;
          scriptContent1 = scriptContent0 @ ''SCENE '' @ String_of_int (sceneNumber scene) @ NL;
          scriptContent2 = scriptContent1 @ ''Duration: '' @ duration scene @ NL;
          scriptContent3 = scriptContent2 @ ''Script: '' @ DQ @ script scene @ DQ @ NL;
          scriptContent4 = scriptContent3 @ ''Visual Prompt: '' @ visualPrompt scene @ NL;
          scriptContent5 = scriptContent4 @ ''Generated Image File: '' @
             (if truthy (generatedImageUrl scene) then imageName scene
              else ''[Not Generated Yet]'') @ NL;
          scriptContent6 = scriptContent5 @
             ''------------------------------------------------'' @ NL @ NL
      in (case generatedImageUrl scene of
            None \<Rightarrow> (zip', scriptContent6)
          | Some url \<Rightarrow>
              if url \<noteq> [] then
                (case index_opt (split_char CHR '','' url) 1 of
                   None \<Rightarrow> (zip', scriptContent6)
                 | Some base64Data \<Rightarrow>
                     if base64Data \<noteq> []
                     then (zip_file (imageName scene) (Base64Data base64Data) zip', scriptContent6)
                     else (zip', scriptContent6))
              else (zip', scriptContent6)))"

text \<open>
  The text one iteration appends to \<open>scriptContent\<close>, given what it prints as the
  image file, and the base64 segment of a scene's payload when the iteration adds an
  image entry. Both are proved below to describe \<open>exportScene\<close>.
\<close>

definition sceneEntryWith :: "Scene \<Rightarrow> string \<Rightarrow> string" where
  "sceneEntryWith scene imageFile =
     ''SCENE '' @ String_of_int (sceneNumber scene) @ NL @
     ''Duration: '' @ duration scene @ NL @
     ''Script: '' @ DQ @ script scene @ DQ @ NL @
     ''Visual Prompt: '' @ visualPrompt scene @ NL @
     ''Generated Image File: '' @ imageFile @ NL @
     ''------------------------------------------------'' @ NL @ NL"

definition sceneEntry :: "Scene \<Rightarrow> string" where
  "sceneEntry scene =
     sceneEntryWith scene
       (if truthy (generatedImageUrl scene) then imageName scene else ''[Not Generated Yet]'')"

definition image_payload :: "Scene \<Rightarrow> string option" where
  "image_payload scene =
     (case generatedImageUrl scene of
        None \<Rightarrow> None
      | Some url \<Rightarrow>
          (case index_opt (split_char CHR '','' url) 1 of
             None \<Rightarrow> None
           | Some base64Data \<Rightarrow> if url \<noteq> [] \<and> base64Data \<noteq> [] then Some base64Data else None))"

text \<open>
  The scene number zero-padded to three digits, as the naming pattern
  \<open>scene_{number:03d}.png\<close> words it.
\<close>

definition three_digits :: "int \<Rightarrow> string" where
  "three_digits n =
     [digit_char (nat n div 100), digit_char (nat n div 10 mod 10), digit_char (nat n mod 10)]"

text \<open>
  The archive as it stands after \<open>zip.file("script_and_prompts.txt", scriptContent)\<close>.
\<close>

definition handleDownloadAssets :: "Project \<Rightarrow> JSZip" where
  "handleDownloadAssets project =
     (let st = fold exportScene (scenes project) ([], scriptHeader project)
      in zip_file ''script_and_prompts.txt'' (TextData (snd st)) (fst st))"

definition manifest :: "JSZip \<Rightarrow> zip_data option" where
  "manifest archive = map_of archive ''script_and_prompts.txt''"

section \<open>Values produced by JSON.parse\<close>

text \<open>
  \<open>JSON.parse\<close> belongs to the JavaScript runtime, not to this repository: the
  functions below take it as the parameter \<open>JSON_parse\<close>, which is \<open>None\<close> where the
  runtime throws a SyntaxError. Its results are the JSON values; \<open>'n\<close> is the number
  type, of which the code only asks whether a number is zero (truthiness). An object
  is its list of own properties in enumeration order.
\<close>

datatype 'n json =
  JNull | JBool bool | JNum 'n | JStr string | JArr "'n json list"
| JObj "(string \<times> 'n json) list"

datatype js_error = Error string | SyntaxError | TypeError | ApiError string

text \<open>
  \<open>v.key\<close> for a key that no prototype defines (\<open>characters\<close>, \<open>id\<close>): reading a
  property of \<open>null\<close> throws a TypeError; an object yields its own property or
  \<open>undefined\<close> (\<open>None\<close>); every other value yields \<open>undefined\<close>.
\<close>

fun get_prop :: "'n json \<Rightarrow> string \<Rightarrow> js_error + 'n json option" where
  "get_prop JNull key = Inl TypeError"
| "get_prop (JObj props) key = Inr (map_of props key)"
| "get_prop v key = Inr None"

text \<open>\<open>obj[key] = v\<close> on a property list: an existing key keeps its place.\<close>

fun set_prop :: "string \<Rightarrow> 'n json \<Rightarrow> (string \<times> 'n json) list \<Rightarrow> (string \<times> 'n json) list" where
  "set_prop key v [] = [(key, v)]"
| "set_prop key v ((k, w) # rest) =
     (if k = key then (key, v) # rest else (k, w) # set_prop key v rest)"

text \<open>
  The own enumerable properties that \<open>{...v}\<close> copies: those of an object, the
  indexed elements of an array, the indexed characters of a string, none otherwise.
\<close>

fun spread_props :: "'n json \<Rightarrow> (string \<times> 'n json) list" where
  "spread_props (JObj props) = props"
| "spread_props (JArr xs) = zip (map nat_digits [0 ..< length xs]) xs"
| "spread_props (JStr s) = zip (map nat_digits [0 ..< length s]) (map (\<lambda>c. JStr [c]) s)"
| "spread_props v = []"

text \<open>Truthiness of a possibly undefined JSON value.\<close>

fun js_truthy :: "('n::zero) json option \<Rightarrow> bool" where
  "js_truthy None = False"
| "js_truthy (Some JNull) = False"
| "js_truthy (Some (JBool b)) = b"
| "js_truthy (Some (JNum n)) = (n \<noteq> 0)"
| "js_truthy (Some (JStr s)) = (s \<noteq> [])"
| "js_truthy (Some (JArr xs)) = True"
| "js_truthy (Some (JObj props)) = True"

text \<open>The runtime representation of a typed character record.\<close>

definition Character_json :: "Character \<Rightarrow> 'n json" where
  "Character_json c =
     JObj ([(''id'', JStr (char_id c)), (''name'', JStr (char_name c)),
            (''description'', JStr (description c)), (''features'', JStr (features c))] @
           (case personality c of None \<Rightarrow> [] | Some p \<Rightarrow> [(''personality'', JStr p)]))"

section \<open>Character editor (CharacterManager)\<close>

text \<open>
  What one run of \<open>handleImportJson\<close> does: the list handed to \<open>onUpdate\<close> if it is
  called, the value given to \<open>setError\<close> (\<open>None\<close> is \<open>null\<close>), and the text of the
  alert if one is shown. The imported elements are whatever \<open>JSON.parse\<close> returned,
  so the lists are lists of JSON values; a typed list is the image of
  \<open>Character_json\<close>.
\<close>

record 'n ImportOutcome =
  onUpdate_arg :: "'n json list option"
  error_set :: "string option"
  alert_text :: "string option"

definition ParseError_message :: string where
  "ParseError_message = ''Invalid JSON syntax.''"

definition SchemaError_message :: string where
  "SchemaError_message = ''Invalid JSON format: missing 'characters' array.''"

definition handleImportJson ::
  "(string \<Rightarrow> 'n json option) \<Rightarrow> 'n json list \<Rightarrow> string \<Rightarrow> 'n ImportOutcome" where
  "handleImportJson JSON_parse chars jsonInput =
     (case JSON_parse jsonInput of
        None \<Rightarrow>
          \<lparr>onUpdate_arg = None, error_set = Some ParseError_message, alert_text = None\<rparr>
      | Some parsed \<Rightarrow>
          (case get_prop parsed ''characters'' of
             Inl e \<Rightarrow>
               \<lparr>onUpdate_arg = None, error_set = Some ParseError_message, alert_text = None\<rparr>
           | Inr (Some (JArr parsed_characters)) \<Rightarrow>
               \<lparr>onUpdate_arg = Some (chars @ parsed_characters),
                error_set = None,
                alert_text = Some (''Successfully imported '' @
                   nat_digits (length parsed_characters) @ '' characters.'')\<rparr>
           | Inr other \<Rightarrow>
               \<lparr>onUpdate_arg = None, error_set = Some SchemaError_message, alert_text = None\<rparr>))"

definition removeCharacter :: "Character list \<Rightarrow> string \<Rightarrow> Character list" where
  "removeCharacter chars ident = filter (\<lambda>c. char_id c \<noteq> ident) chars"

section \<open>Generation service (geminiService)\<close>

text \<open>
  The remote capability is the parameter \<open>generateContent\<close>: it answers a request
  with a response or rejects with an error. \<open>requests\<close> records, in order, the
  requests that were sent to it; \<open>uuid_calls\<close> counts the calls of
  \<open>crypto.randomUUID\<close>, whose \<open>n\<close>-th result is \<open>randomUUID n\<close>.
\<close>

datatype Schema =
  SchemaInteger | SchemaString | SchemaEnum "string list"
| SchemaArray Schema | SchemaObject "(string \<times> Schema) list" "string list"

record GenerateContentRequest =
  model :: string
  contents :: string
  systemInstruction :: "string option"
  responseMimeType :: "string option"
  responseSchema :: "Schema option"
  aspectRatio :: "string option"

record InlineData =
  inline_data :: "string option"

record Part =
  part_text :: "string option"
  inlineData :: "InlineData option"

record Content =
  parts :: "Part list option"

record Candidate =
  content :: "Content option"

record GenerateContentResponse =
  response_text :: "string option"
  candidates :: "Candidate list option"

record ServiceState =
  requests :: "GenerateContentRequest list"
  uuid_calls :: nat

definition MissingCredential :: js_error where
  "MissingCredential = Error ''API Key not found in environment variables''"

text \<open>\<open>getClient\<close>: the client is the key it was built with.\<close>

definition getClient :: "string option \<Rightarrow> js_error + string" where
  "getClient apiKey =
     (case apiKey of
        None \<Rightarrow> Inl MissingCredential
      | Some k \<Rightarrow> if k = [] then Inl MissingCredential else Inr k)"

fun join :: "string \<Rightarrow> string list \<Rightarrow> string" where
  "join sep [] = []"
| "join sep [x] = x"
| "join sep (x # y # ys) = x @ sep @ join sep (y # ys)"

definition characterLine :: "Character \<Rightarrow> string" where
  "characterLine c =
     ''- '' @ char_name c @ '': '' @ description c @ ''. Visual features: '' @ features c @
     ''. '' @ (case personality c of
                  None \<Rightarrow> []
                | Some p \<Rightarrow> if p \<noteq> [] then ''Personality: '' @ p else [])"

definition storySystemInstruction :: "VideoType \<Rightarrow> AnimationStyle \<Rightarrow> string \<Rightarrow> string" where
  "storySystemInstruction type style characterContext = join NL
     [''You are an expert animation director and screenwriter for YouTube.'',
      ''  Your task is to take a story idea and break it down into scenes.'',
      ''  '',
      ''  Format Constraints:'',
      ''  - Video Type: '' @ VideoType_value type,
      ''  - Animation Style: '' @ AnimationStyle_value style,
      ''  '',
      ''  Characters Available:'',
      ''  '' @ characterContext,
      ''  '',
      ''  Instructions:'',
      ''  1. Create a compelling script suitable for the video type (fast-paced for Shorts, well-paced for Long).'',
      ''  2. For 'visualPrompt', write a highly detailed image generation prompt. '',
      ''     - IMPORTANT: You MUST inject the specific visual features of the characters (e.g., ''
        @ DQ @ ''Bella, a tall woman with long purple braid'' @ DQ @
        '') into the prompt every time the character appears so the image generator knows how to draw them.'',
      ''     - Include the art style ('' @ AnimationStyle_value style @ '') in every visual prompt.'',
      ''     - Describe lighting, camera angle, and background.'',
      ''  '',
      ''  Output MUST be a JSON array of objects.'']"

definition sceneSchema :: Schema where
  "sceneSchema = SchemaArray (SchemaObject
     [(''sceneNumber'', SchemaInteger), (''script'', SchemaString),
      (''visualPrompt'', SchemaString), (''duration'', SchemaString)]
     [''sceneNumber'', ''script'', ''visualPrompt'', ''duration''])"

definition storyRequest ::
  "string \<Rightarrow> Character list \<Rightarrow> AnimationStyle \<Rightarrow> VideoType \<Rightarrow> GenerateContentRequest" where
  "storyRequest idea chars style type =
     \<lparr>model = ''gemini-2.5-flash'',
      contents = ''Story Idea: '' @ idea,
      systemInstruction =
        Some (storySystemInstruction type style (join NL (map characterLine chars))),
      responseMimeType = Some ''application/json'',
      responseSchema = Some sceneSchema,
      aspectRatio = None\<rparr>"

text \<open>
  \<open>parsed.map(item => ({...item, id: crypto.randomUUID()}))\<close>: one call of
  \<open>randomUUID\<close> per element, in order, starting at call number \<open>k\<close>.
\<close>

fun add_ids :: "(nat \<Rightarrow> string) \<Rightarrow> nat \<Rightarrow> 'n json list \<Rightarrow> 'n json list" where
  "add_ids randomUUID k [] = []"
| "add_ids randomUUID k (item # items) =
     JObj (set_prop ''id'' (JStr (randomUUID k)) (spread_props item))
       # add_ids randomUUID (Suc k) items"

definition generateStoryScenes ::
  "string option \<Rightarrow> (GenerateContentRequest \<Rightarrow> js_error + GenerateContentResponse) \<Rightarrow>
   (string \<Rightarrow> 'n json option) \<Rightarrow> (nat \<Rightarrow> string) \<Rightarrow>
   string \<Rightarrow> Character list \<Rightarrow> AnimationStyle \<Rightarrow> VideoType \<Rightarrow>
   ServiceState \<Rightarrow> (js_error + 'n json list) \<times> ServiceState" where
  "generateStoryScenes apiKey generateContent JSON_parse randomUUID idea chars style type st =
     (case getClient apiKey of
        Inl e \<Rightarrow> (Inl e, st)
      | Inr ai \<Rightarrow>
          (let req = storyRequest idea chars style type;
               st1 = st\<lparr>requests := requests st @ [req]\<rparr>
           in case generateContent req of
                Inl e \<Rightarrow> (Inl e, st1)
              | Inr response \<Rightarrow>
                  (let jsonText = or_default (response_text response) ''[]''
                  
                   in case JSON_parse jsonText of
                        None \<Rightarrow> (Inl SyntaxError, st1)
                      | Some (JArr items) \<Rightarrow>
                          (Inr (add_ids randomUUID (uuid_calls st1) items),
                           st1\<lparr>uuid_calls := uuid_calls st1 + length items\<rparr>)
                      | Some other \<Rightarrow> (Inl TypeError, st1))))"

definition previewRequest :: "string \<Rightarrow> GenerateContentRequest" where
  "previewRequest prompt =
     \<lparr>model = ''gemini-2.5-flash-image'',
      contents = prompt,
      systemInstruction = None,
      responseMimeType = None,
      responseSchema = None,
      aspectRatio = Some ''16:9''\<rparr>"

text \<open>\<open>response.candidates?.[0]?.content?.parts || []\<close>\<close>

definition response_parts :: "GenerateContentResponse \<Rightarrow> Part list" where
  "response_parts response =
     (case candidates response of
        None \<Rightarrow> []
      | Some cs \<Rightarrow>
          (case index_opt cs 0 of
             None \<Rightarrow> []
           | Some c \<Rightarrow>
               (case content c of
                  None \<Rightarrow> []
                | Some ct \<Rightarrow> (case parts ct of None \<Rightarrow> [] | Some ps \<Rightarrow> ps))))"

text \<open>
  The loop over the parts: the first part carrying inline data is returned as a
  data URI (an undefined \<open>data\<close> prints as \<open>undefined\<close>); no such part is an error.
\<close>

fun first_image :: "Part list \<Rightarrow> js_error + string" where
  "first_image [] = Inl (Error ''No image generated'')"
| "first_image (p # ps) =
     (case inlineData p of
        Some d \<Rightarrow>
          Inr (''data:image/png;base64,'' @
               (case inline_data d of None \<Rightarrow> ''undefined'' | Some b \<Rightarrow> b))
      | None \<Rightarrow> first_image ps)"

definition generateScenePreview ::
  "string option \<Rightarrow> (GenerateContentRequest \<Rightarrow> js_error + GenerateContentResponse) \<Rightarrow>
   string \<Rightarrow> ServiceState \<Rightarrow> (js_error + string) \<times> ServiceState" where
  "generateScenePreview apiKey generateContent prompt st =
     (case getClient apiKey of
        Inl e \<Rightarrow> (Inl e, st)
      | Inr ai \<Rightarrow>
          (let req = previewRequest prompt;
               st1 = st\<lparr>requests := requests st @ [req]\<rparr>
           in case generateContent req of
                Inl e \<Rightarrow> (Inl e, st1)
              | Inr response \<Rightarrow> (first_image (response_parts response), st1)))"

definition ideaSystemInstruction :: string where
  "ideaSystemInstruction = join NL
     [''You are a YouTube creative strategist and trend analyst. '',
      ''  Your goal is to brainstorm a high-potential, viral animation project idea.'',
      ''  '',
      ''  Constraints:'',
      ''  - Allowed Styles: '' @ join '', '' (map AnimationStyle_value
          [DISNEY_PIXAR, ANIME_SHINKAI, CINEMATIC_REALISTIC, HAND_DRAWN_SKETCHY, CLAYMATION,
           CYBERPUNK]),
      ''  - Allowed Types: '' @ join '', '' (map VideoType_value [SHORT, LONG]),
      ''  '',
      ''  Instructions:'',
      ''  1. Analyze current trends or use the provided topic to create a concept.'',
      ''  2. Create a catchy 'name' for the project.'',
      ''  3. Write a brief 'storyIdea' (plot summary).'',
      ''  4. Select the best 'type' and 'style' from the allowed lists.'',
      ''  5. Create a set of unique 'characters' (2-4 characters) with detailed visual descriptions suitable for AI image generation.'']"

definition ideaSchema :: Schema where
  "ideaSchema = SchemaObject
     [(''name'', SchemaString), (''storyIdea'', SchemaString),
      (''type'', SchemaEnum (map VideoType_value [SHORT, LONG])),
      (''style'', SchemaEnum (map AnimationStyle_value
          [DISNEY_PIXAR, ANIME_SHINKAI, CINEMATIC_REALISTIC, HAND_DRAWN_SKETCHY, CLAYMATION,
           CYBERPUNK])),
      (''characters'', SchemaArray (SchemaObject
          [(''id'', SchemaString), (''name'', SchemaString), (''description'', SchemaString),
           (''features'', SchemaString), (''personality'', SchemaString)]
          [''id'', ''name'', ''description'', ''features'']))]
     [''name'', ''storyIdea'', ''type'', ''style'', ''characters'']"

definition ideaRequest :: "string option \<Rightarrow> GenerateContentRequest" where
  "ideaRequest topic =
     \<lparr>model = ''gemini-2.5-flash'',
      contents =
        (case topic of
           Some t \<Rightarrow>
             if t \<noteq> []
             then ''Generate a project idea based on this topic: '' @ DQ @ t @ DQ @ ''.''
             else ''Generate a trending, viral animation project idea (e.g., horror, comedy, parody, cute animals, or sci-fi).''
         | None \<Rightarrow> ''Generate a trending, viral animation project idea (e.g., horror, comedy, parody, cute animals, or sci-fi).''),
      systemInstruction = Some ideaSystemInstruction,
      responseMimeType = Some ''application/json'',
      responseSchema = Some ideaSchema,
      aspectRatio = None\<rparr>"

text \<open>
  \<open>idea.characters.map(c => ({...c, id: c.id || crypto.randomUUID()}))\<close>: a truthy
  \<open>id\<close> is kept, a missing or falsy one is replaced by a new identifier; reading
  \<open>id\<close> of a \<open>null\<close> element throws.
\<close>

fun ensure_ids ::
  "(nat \<Rightarrow> string) \<Rightarrow> nat \<Rightarrow> ('n::zero) json list \<Rightarrow> (js_error + 'n json list) \<times> nat" where
  "ensure_ids randomUUID k [] = (Inr [], k)"
| "ensure_ids randomUUID k (c # cs) =
     (case get_prop c ''id'' of
        Inl e \<Rightarrow> (Inl e, k)
      | Inr v \<Rightarrow>
          (let k1 = (if js_truthy v then k else Suc k);
               new_id = (case v of
                           Some w \<Rightarrow> if js_truthy v then w else JStr (randomUUID k)
                         | None \<Rightarrow> JStr (randomUUID k))
           in case ensure_ids randomUUID k1 cs of
                (Inl e, k2) \<Rightarrow> (Inl e, k2)
              | (Inr cs1, k2) \<Rightarrow>
                  (Inr (JObj (set_prop ''id'' new_id (spread_props c)) # cs1), k2)))"

definition generateProjectIdea ::
  "string option \<Rightarrow> (GenerateContentRequest \<Rightarrow> js_error + GenerateContentResponse) \<Rightarrow>
   (string \<Rightarrow> ('n::zero) json option) \<Rightarrow> (nat \<Rightarrow> string) \<Rightarrow>
   string option \<Rightarrow> ServiceState \<Rightarrow> (js_error + 'n json) \<times> ServiceState" where
  "generateProjectIdea apiKey generateContent JSON_parse randomUUID topic st =
     (case getClient apiKey of
        Inl e \<Rightarrow> (Inl e, st)
      | Inr ai \<Rightarrow>
          (let req = ideaRequest topic;
               st1 = st\<lparr>requests := requests st @ [req]\<rparr>
           in case generateContent req of
                Inl e \<Rightarrow> (Inl e, st1)
              | Inr response \<Rightarrow>
                  (let jsonText = or_default (response_text response) ''{}''
                  
                   in case JSON_parse jsonText of
                        None \<Rightarrow> (Inl SyntaxError, st1)
                      | Some idea \<Rightarrow>
                          (case get_prop idea ''characters'' of
                             Inl e \<Rightarrow> (Inl e, st1)
                           | Inr cs \<Rightarrow>
                               if js_truthy cs then
                                 (case cs of
                                    Some (JArr xs) \<Rightarrow>
                                      (case ensure_ids randomUUID (uuid_calls st1) xs of
                                         (Inl e, k) \<Rightarrow> (Inl e, st1\<lparr>uuid_calls := k\<rparr>)
                                       | (Inr xs1, k) \<Rightarrow>
                                           (Inr (JObj (set_prop ''characters'' (JArr xs1)
                                                        (spread_props idea))),
                                            st1\<lparr>uuid_calls := k\<rparr>))
                                  | other \<Rightarrow> (Inl TypeError, st1))
                               else (Inr idea, st1)))))"

section \<open>Scene editor (Storyboard)\<close>

text \<open>
  \<open>handleSavePrompt\<close> hands the project with the edited scene list to
  \<open>onUpdateProject\<close>; \<open>editPromptValue\<close> is the text being edited.
\<close>

definition handleSavePrompt :: "Project \<Rightarrow> string \<Rightarrow> string \<Rightarrow> Project" where
  "handleSavePrompt project editPromptValue sceneId =
     project\<lparr>scenes :=
       map (\<lambda>s. if scene_id s = sceneId then s\<lparr>visualPrompt := editPromptValue\<rparr> else s)
         (scenes project)\<rparr>"

text \<open>
  \<open>handleGenerateImage\<close>: the project handed to \<open>onUpdateProject\<close>, or \<open>None\<close> with
  the alert when \<open>generateScenePreview\<close> fails, and the state of the service.
\<close>

definition handleGenerateImage ::
  "string option \<Rightarrow> (GenerateContentRequest \<Rightarrow> js_error + GenerateContentResponse) \<Rightarrow>
   Project \<Rightarrow> Scene \<Rightarrow> ServiceState \<Rightarrow> (string + Project) \<times> ServiceState" where
  "handleGenerateImage apiKey generateContent project scene st =
     (case generateScenePreview apiKey generateContent (visualPrompt scene) st of
        (Inl e, st1) \<Rightarrow> (Inl ''Failed to generate image. Try again.'', st1)
      | (Inr base64Image, st1) \<Rightarrow>
          (Inr (project\<lparr>scenes :=
                  map (\<lambda>s. if scene_id s = scene_id scene
                            then s\<lparr>generatedImageUrl := Some base64Image\<rparr> else s)
                    (scenes project)\<rparr>),
           st1))"

section \<open>Project store (App)\<close>

datatype View = dashboard | create | workspace

record ProjectIdea =
  idea_name :: string
  idea_storyIdea :: string
  idea_type :: VideoType
  idea_style :: AnimationStyle
  idea_characters :: "Character list"

text \<open>
  The component state, with the slot of the local storage (\<open>None\<close> while nothing has
  been saved) that \<open>saveProjectsToStorage\<close> overwrites with the whole list.
\<close>

record AppState =
  projects :: "Project list"
  currentProject :: "Project option"
  view :: View
  newProjectName :: string
  newProjectType :: VideoType
  newProjectStyle :: AnimationStyle
  storyIdea_input :: string
  customCharacters :: "Character list option"
  recommendedIdea :: "ProjectIdea option"
  brainstormTopic :: string
  storage :: "Project list option"

text \<open>The characters of \<open>INITIAL_CHARACTERS_JSON\<close>.\<close>

definition INITIAL_CHARACTERS :: "Character list" where
  "INITIAL_CHARACTERS =
     [\<lparr>char_id = ''char_bella'', char_name = ''Bella'',
       description = ''The glamorous older sister. Adult female, tall.'',
       features = ''Long purple braid, perfect makeup, sparkling outfits.'',
       personality = None\<rparr>,
      \<lparr>char_id = ''char_mia'', char_name = ''Mia'',
       description = ''The cute toddler sister. Small, huge eyes, mischievous.'',
       features = ''High red ponytail, cute casual clothes.'',
       personality = None\<rparr>]"

text \<open>
  \<open>handleCreateProject\<close>; \<open>uuid\<close> is the result of \<open>crypto.randomUUID()\<close> and \<open>now\<close>
  that of \<open>Date.now()\<close>.
\<close>

definition handleCreateProject :: "string \<Rightarrow> int \<Rightarrow> AppState \<Rightarrow> AppState" where
  "handleCreateProject uuid now st =
     (let initialChars = (case customCharacters st of
                            Some cs \<Rightarrow> cs
                          | None \<Rightarrow> INITIAL_CHARACTERS);
          newProject = \<lparr>proj_id = uuid,
                        proj_name = or_default (Some (newProjectName st)) ''Untitled Project'',
                        proj_type = newProjectType st,
                        proj_style = newProjectStyle st,
                        createdAt = now,
                        characters = initialChars,
                        scenes = [],
                        storyIdea = storyIdea_input st\<rparr>;
          updated = newProject # projects st
      in st\<lparr>projects := updated,
             storage := Some updated,
             currentProject := Some newProject,
             view := workspace,
             newProjectName := [],
             storyIdea_input := [],
             customCharacters := None,
             recommendedIdea := None,
             brainstormTopic := []\<rparr>)"

definition updateProject :: "Project \<Rightarrow> AppState \<Rightarrow> AppState" where
  "updateProject updated st =
     (let newProjects = map (\<lambda>p. if proj_id p = proj_id updated then updated else p)
                          (projects st)
      in st\<lparr>projects := newProjects,
             storage := Some newProjects,
             currentProject := Some updated\<rparr>)"

text \<open>\<open>handleDeleteProject\<close>; \<open>confirmed\<close> is the answer to the \<open>confirm\<close> dialog.\<close>

definition handleDeleteProject :: "bool \<Rightarrow> string \<Rightarrow> AppState \<Rightarrow> AppState" where
  "handleDeleteProject confirmed ident st =
     (if \<not> confirmed then st
      else
        (let newProjects = filter (\<lambda>p. proj_id p \<noteq> ident) (projects st);
             st1 = st\<lparr>projects := newProjects, storage := Some newProjects\<rparr>
         in if map_option proj_id (currentProject st) = Some ident
            then st1\<lparr>currentProject := None, view := dashboard\<rparr>
            else st1))"

section \<open>Sample data\<close>

text \<open>Concrete scenes and projects on which the theorems below are instantiated.\<close>

definition demo_scene :: "string \<Rightarrow> int \<Rightarrow> string option \<Rightarrow> Scene" where
  "demo_scene i n img =
     \<lparr>scene_id = i, sceneNumber = n, script = ''Hi'', visualPrompt = ''A cat'',
      duration = ''3s'', generatedImageUrl = img, isGeneratingImage = None\<rparr>"

definition demo_project :: "Scene list \<Rightarrow> Project" where
  "demo_project ss =
     \<lparr>proj_id = ''p1'', proj_name = ''Test'', proj_type = SHORT, proj_style = DISNEY_PIXAR,
      createdAt = 0, characters = [], scenes = ss, storyIdea = []\<rparr>"

definition demo_app :: "Project list \<Rightarrow> AppState" where
  "demo_app ps =
     \<lparr>projects = ps, currentProject = None, view = dashboard, newProjectName = ''Test'',
      newProjectType = SHORT, newProjectStyle = DISNEY_PIXAR, storyIdea_input = [],
      customCharacters = None, recommendedIdea = None, brainstormTopic = [],
      storage = Some ps\<rparr>"

definition demo_service :: ServiceState where
  "demo_service = \<lparr>requests = [], uuid_calls = 0\<rparr>"

text \<open>
  The value of \<open>JSON.parse\<close> on the few texts the examples use: four valid documents,
  and \<open>None\<close> (a SyntaxError) on the invalid texts \<open>""\<close> and \<open>not json\<close>. No other
  text is given to it.
\<close>

definition JSON_parse_sample :: "string \<Rightarrow> int json option" where
  "JSON_parse_sample t =
     (if t = ''[]'' then Some (JArr [])
      else if t = ''null'' then Some JNull
      else if t = ''{'' @ DQ @ ''characters'' @ DQ @ '':[null]}''
        then Some (JObj [(''characters'', JArr [JNull])])
      else if t = ''[{'' @ DQ @ ''sceneNumber'' @ DQ @ '':1},{'' @ DQ @ ''sceneNumber'' @ DQ @ '':2}]''
        then Some (JArr [JObj [(''sceneNumber'', JNum 1)], JObj [(''sceneNumber'', JNum 2)]])
      else None)"

definition demo_uuid :: "nat \<Rightarrow> string" where
  "demo_uuid n = ''uuid-'' @ nat_digits n"

definition demo_remote ::
  "string option \<Rightarrow> GenerateContentRequest \<Rightarrow> js_error + GenerateContentResponse" where
  "demo_remote t req = Inr \<lparr>response_text = t, candidates = None\<rparr>"

section \<open>Facts about the string primitives\<close>

lemma split_char_no_sep: "c \<notin> set u \<Longrightarrow> split_char c u = [u]"
  by (induction u) auto

lemma nat_digits_1: "n < 10 \<Longrightarrow> nat_digits n = [digit_char n]"
  by (simp add: nat_digits.simps [of n])

lemma nat_digits_2:
  assumes "10 \<le> n" "n < 100"
  shows "nat_digits n = [digit_char (n div 10), digit_char (n mod 10)]"
proof -
  from assms have "n div 10 < 10" by simp
  with assms show ?thesis by (simp add: nat_digits.simps [of n] nat_digits_1)
qed

lemma nat_digits_3:
  assumes "100 \<le> n" "n < 1000"
  shows "nat_digits n = [digit_char (n div 100), digit_char (n div 10 mod 10), digit_char (n mod 10)]"
proof -
  from assms have b: "10 \<le> n div 10" "n div 10 < 100" by simp_all
  have c: "n div 10 div 10 = n div 100" by (simp add: div_mult2_eq)
  from assms b show ?thesis by (simp add: nat_digits.simps [of n] nat_digits_2 c)
qed

lemma digit_char_0: "digit_char 0 = CHR ''0''" by (simp add: digit_char_def)

lemma padStart_three_digits:
  assumes "0 \<le> n" "n < 1000"
  shows "padStart 3 ''0'' (String_of_int n) = three_digits n"
proof -
  consider "nat n < 10" | "10 \<le> nat n" "nat n < 100" | "100 \<le> nat n" "nat n < 1000"
    using assms by linarith
  then show ?thesis
  proof cases
    case 1
    then show ?thesis using assms
      by (simp add: padStart_def String_of_int_def three_digits_def nat_digits_1 digit_char_0 numeral_2_eq_2)
  next
    case 2
    then have "nat n div 100 = 0" by simp
    with 2 show ?thesis using assms
      by (simp add: padStart_def String_of_int_def three_digits_def nat_digits_2 digit_char_0)
  next
    case 3
    then show ?thesis using assms
      by (simp add: padStart_def String_of_int_def three_digits_def nat_digits_3)
  qed
qed

lemma digit_char_inj: "a < 10 \<Longrightarrow> b < 10 \<Longrightarrow> digit_char a = digit_char b \<Longrightarrow> a = b"
  unfolding digit_char_def by (simp split: if_splits; arith)

lemma three_digits_inj:
  assumes "0 \<le> m" "m < 1000" "0 \<le> n" "n < 1000" "three_digits m = three_digits n"
  shows "m = n"
proof -
  let ?a = "nat m" and ?b = "nat n"
  have lt: "?a < 1000" "?b < 1000" using assms by simp_all
  then have h: "?a div 100 < 10" "?b div 100 < 10" by simp_all
  have e1: "?a div 100 = ?b div 100"
    using assms(5) h by (auto simp: three_digits_def intro: digit_char_inj)
  have e2: "?a div 10 mod 10 = ?b div 10 mod 10"
    using assms(5) by (auto simp: three_digits_def intro: digit_char_inj)
  have e3: "?a mod 10 = ?b mod 10"
    using assms(5) by (auto simp: three_digits_def intro: digit_char_inj)
  have "?a div 10 = ?b div 10"
  proof -
    have "?a div 10 = 10 * (?a div 10 div 10) + ?a div 10 mod 10" by simp
    also have "?a div 10 div 10 = ?a div 100" by (simp add: div_mult2_eq)
    also have "10 * (?a div 100) + ?a div 10 mod 10 = 10 * (?b div 100) + ?b div 10 mod 10"
      using e1 e2 by simp
    also have "?b div 100 = ?b div 10 div 10" by (simp add: div_mult2_eq)
    also have "10 * (?b div 10 div 10) + ?b div 10 mod 10 = ?b div 10" by simp
    finally show ?thesis .
  qed
  then have "?a = ?b" using e3 by (metis div_mult_mod_eq)
  then show ?thesis using assms by simp
qed

section \<open>Facts about the export loop\<close>

lemma map_of_zip_file: "map_of (zip_file n d z) k = (if k = n then Some d else map_of z k)"
  by (induction z) auto

lemma exportScene_snd: "snd (exportScene s st) = snd st @ sceneEntry s"
  by (simp add: exportScene_def sceneEntry_def sceneEntryWith_def Let_def
           split: option.splits)

lemma exportScene_fst:
  "fst (exportScene s st) =
     (case image_payload s of None \<Rightarrow> fst st
      | Some b \<Rightarrow> zip_file (imageName s) (Base64Data b) (fst st))"
  by (simp add: exportScene_def image_payload_def Let_def split: option.splits)

lemma fold_exportScene_snd:
  "snd (fold exportScene xs st) = snd st @ concat (map sceneEntry xs)"
  by (induction xs arbitrary: st) (simp_all add: exportScene_snd)

lemma manifest_text:
  "manifest (handleDownloadAssets p) =
     Some (TextData (scriptHeader p @ concat (map sceneEntry (scenes p))))"
  by (simp add: manifest_def handleDownloadAssets_def Let_def map_of_zip_file fold_exportScene_snd)

lemma fold_exportScene_untouched:
  "\<forall>x \<in> set xs. imageName x = k \<longrightarrow> image_payload x = None \<Longrightarrow>
   map_of (fst (fold exportScene xs st)) k = map_of (fst st) k"
proof (induction xs arbitrary: st)
  case Nil
  show ?case by simp
next
  case (Cons x xs)
  have "map_of (fst (exportScene x st)) k = map_of (fst st) k"
    using Cons.prems by (auto simp: exportScene_fst map_of_zip_file split: option.splits)
  with Cons show ?case by simp
qed

lemma fold_exportScene_entry:
  "s \<in> set xs \<Longrightarrow> distinct (map imageName xs) \<Longrightarrow> image_payload s = Some b \<Longrightarrow>
   map_of (fst (fold exportScene xs st)) (imageName s) = Some (Base64Data b)"
proof (induction xs arbitrary: st)
  case Nil
  then show ?case by simp
next
  case (Cons x xs)
  show ?case
  proof (cases "s = x")
    case True
    have "\<forall>y \<in> set xs. imageName y = imageName s \<longrightarrow> image_payload y = None"
      using Cons.prems(2) True by (auto simp: image_iff)
    then have "map_of (fst (fold exportScene xs (exportScene x st))) (imageName s)
                 = map_of (fst (exportScene x st)) (imageName s)"
      by (rule fold_exportScene_untouched)
    also have "\<dots> = Some (Base64Data b)"
      using True Cons.prems(3) by (simp add: exportScene_fst map_of_zip_file)
    finally show ?thesis by simp
  next
    case False
    with Cons.prems have "s \<in> set xs" "distinct (map imageName xs)" by auto
    from Cons.IH [OF this Cons.prems(3)] show ?thesis by simp
  qed
qed

lemma imageName_not_manifest: "imageName s \<noteq> ''script_and_prompts.txt''"
  by (simp add: imageName_def)

lemma imageName_three_digits:
  "1 \<le> sceneNumber s \<Longrightarrow> sceneNumber s \<le> 999 \<Longrightarrow>
   imageName s = ''scene_'' @ three_digits (sceneNumber s) @ ''.png''"
  by (simp add: imageName_def padStart_three_digits)

lemma imageName_distinct:
  assumes r: "\<forall>s \<in> set xs. 1 \<le> sceneNumber s \<and> sceneNumber s \<le> 999"
    and d: "distinct (map sceneNumber xs)"
  shows "distinct (map imageName xs)"
proof -
  from d have dx: "distinct xs" and inj: "inj_on sceneNumber (set xs)"
    by (simp_all add: distinct_map)
  have "inj_on imageName (set xs)"
  proof (rule inj_onI)
    fix x y
    assume x: "x \<in> set xs" and y: "y \<in> set xs" and eq: "imageName x = imageName y"
    from r x y have rx: "0 \<le> sceneNumber x" "sceneNumber x < 1000"
      and ry: "0 \<le> sceneNumber y" "sceneNumber y < 1000" by auto
    from r x y eq have "three_digits (sceneNumber x) = three_digits (sceneNumber y)"
      by (simp add: imageName_three_digits three_digits_def)
    with rx ry have "sceneNumber x = sceneNumber y" by (rule three_digits_inj)
    with inj x y show "x = y" by (simp add: inj_on_def)
  qed
  with dx show ?thesis by (simp add: distinct_map)
qed

section \<open>Facts about the import and the scene post-processing\<close>

lemma import_parse_failure:
  "JSON_parse t = None \<Longrightarrow>
   handleImportJson JSON_parse L t
     = \<lparr>onUpdate_arg = None, error_set = Some ParseError_message, alert_text = None\<rparr>"
  by (simp add: handleImportJson_def)

lemma import_schema_failure:
  "JSON_parse t = Some v \<Longrightarrow> v \<noteq> JNull \<Longrightarrow>
   (\<forall>A. get_prop v ''characters'' \<noteq> Inr (Some (JArr A))) \<Longrightarrow>
   handleImportJson JSON_parse L t
     = \<lparr>onUpdate_arg = None, error_set = Some SchemaError_message, alert_text = None\<rparr>"
  by (cases v) (auto simp: handleImportJson_def split: option.splits json.splits sum.splits)

lemma import_failure_emits_no_update:
  "error_set (handleImportJson JSON_parse L t) \<noteq> None \<Longrightarrow>
   onUpdate_arg (handleImportJson JSON_parse L t) = None"
  by (auto simp: handleImportJson_def split: option.splits json.splits sum.splits)

lemma map_of_set_prop:
  "map_of (set_prop key v props) k = (if k = key then Some v else map_of props k)"
  by (induction props) auto

lemma length_add_ids: "length (add_ids f k items) = length items"
  by (induction items arbitrary: k) simp_all

lemma nth_add_ids:
  "i < length items \<Longrightarrow>
   add_ids f k items ! i = JObj (set_prop ''id'' (JStr (f (k + i))) (spread_props (items ! i)))"
proof (induction items arbitrary: k i)
  case Nil
  then show ?case by simp
next
  case (Cons x xs)
  then show ?case by (cases i) simp_all
qed

lemma add_ids_ids:
  "map (\<lambda>r. get_prop r ''id'') (add_ids f k items)
     = map (\<lambda>n. Inr (Some (JStr (f n)))) [k ..< k + length items]"
proof (induction items arbitrary: k)
  case Nil
  show ?case by simp
next
  case (Cons x xs)
  have "[k ..< k + length (x # xs)] = k # [Suc k ..< Suc k + length xs]"
    by (subst upt_rec) simp
  with Cons show ?case by (simp add: map_of_set_prop)
qed


lemma or_default_falsy: "\<not> truthy x \<Longrightarrow> or_default x d = d"
  by (cases x) simp_all

lemma or_default_truthy: "t \<noteq> [] \<Longrightarrow> or_default (Some t) d = t"
  by simp

lemma getClient_truthy: "truthy apiKey \<Longrightarrow> \<exists>k. getClient apiKey = Inr k"
  by (cases apiKey) (simp_all add: getClient_def)

lemma story_scenes_parsed:
  assumes "truthy apiKey"
    and "generateContent (storyRequest idea chars style type) = Inr response"
    and "JSON_parse (or_default (response_text response) ''[]'') = Some (JArr items)"
  shows "fst (generateStoryScenes apiKey generateContent JSON_parse randomUUID idea chars style
            type st) = Inr (add_ids randomUUID (uuid_calls st) items)"
  using assms getClient_truthy [of apiKey]
  by (auto simp: generateStoryScenes_def Let_def)

lemma story_scenes_syntax_error:
  assumes "truthy apiKey"
    and "generateContent (storyRequest idea chars style type) = Inr response"
    and "JSON_parse (or_default (response_text response) ''[]'') = None"
  shows "fst (generateStoryScenes apiKey generateContent JSON_parse randomUUID idea chars style
            type st) = Inl SyntaxError"
  using assms getClient_truthy [of apiKey]
  by (auto simp: generateStoryScenes_def Let_def)

lemma add_ids_distinct:
  assumes "distinct (map f [k ..< k + length items])"
  shows "distinct (map (\<lambda>r. get_prop r ''id'') (add_ids f k items))"
proof -
  have "inj (\<lambda>u. (Inr (Some (JStr u)) :: js_error + 'a json option))"
    by (simp add: inj_on_def)
  then have "distinct (map (\<lambda>u. (Inr (Some (JStr u)) :: js_error + 'a json option))
                 (map f [k ..< k + length items]))"
    using assms by (simp only: distinct_map) (auto intro: inj_on_subset)
  then show ?thesis by (simp add: add_ids_ids comp_def)
qed

section \<open>The export manifest and the image files\<close>

text \<open>
  C1, as amended. The export does not sort: the manifest is the header followed by the
  entry of every scene in the order of the project's scene list. It is therefore in
  ascending scene-number order when the scene list is, and then equals the manifest of
  the list sorted by scene number.
\<close>

theorem manifest_follows_list_order:
  "manifest (handleDownloadAssets p)
     = Some (TextData (scriptHeader p @ concat (map sceneEntry (scenes p))))
   \<and> (sorted (map sceneNumber (scenes p)) \<longrightarrow>
        manifest (handleDownloadAssets p)
          = Some (TextData (scriptHeader p
               @ concat (map sceneEntry (sort_key sceneNumber (scenes p))))))"
  by (simp add: manifest_text sort_key_id_if_sorted)

text \<open>
  C1, an instance: a scene list in ascending order.
\<close>

theorem manifest_follows_list_order_witness:
  "sorted (map sceneNumber (scenes (demo_project [demo_scene ''a'' 1 None, demo_scene ''b'' 2 None])))
   \<and> manifest (handleDownloadAssets (demo_project [demo_scene ''a'' 1 None, demo_scene ''b'' 2 None]))
       = Some (TextData (scriptHeader (demo_project [])
            @ sceneEntry (demo_scene ''a'' 1 None) @ sceneEntry (demo_scene ''b'' 2 None)))"
proof -
  let ?p = "demo_project [demo_scene ''a'' 1 None, demo_scene ''b'' 2 None]"
  have s: "sorted (map sceneNumber (scenes ?p))"
    by (simp add: demo_project_def demo_scene_def)
  have h: "scriptHeader ?p = scriptHeader (demo_project [])"
    by (simp add: scriptHeader_def demo_project_def)
  from manifest_follows_list_order [of ?p] s h show ?thesis
    by (simp add: demo_project_def sort_key_id_if_sorted)
qed

text \<open>
  C1 as stated fails: two projects with the same two scenes, numbered 1 and 2, in
  opposite list order have different manifests, and the one that holds scene 2 first
  prints scene 2 first.
\<close>

theorem manifest_order_counterexample:
  "scenes (demo_project [demo_scene ''b'' 2 None, demo_scene ''a'' 1 None])
     = rev (scenes (demo_project [demo_scene ''a'' 1 None, demo_scene ''b'' 2 None]))
   \<and> distinct (map sceneNumber (scenes (demo_project [demo_scene ''b'' 2 None, demo_scene ''a'' 1 None])))
   \<and> manifest (handleDownloadAssets (demo_project [demo_scene ''b'' 2 None, demo_scene ''a'' 1 None]))
       \<noteq> manifest (handleDownloadAssets (demo_project [demo_scene ''a'' 1 None, demo_scene ''b'' 2 None]))
   \<and> manifest (handleDownloadAssets (demo_project [demo_scene ''b'' 2 None, demo_scene ''a'' 1 None]))
       = Some (TextData (scriptHeader (demo_project [])
            @ sceneEntry (demo_scene ''b'' 2 None) @ sceneEntry (demo_scene ''a'' 1 None)))"
  by (simp add: manifest_def handleDownloadAssets_def exportScene_def demo_project_def
        demo_scene_def scriptHeader_def sceneEntry_def sceneEntryWith_def Let_def
        String_of_int_def nat_digits.simps digit_char_def NL_def DQ_def)

text \<open>
  C6. In a project whose scene numbers all lie between 1 and 999, the image file of
  every scene is named \<open>scene_\<close>, the number zero-padded to three digits, \<open>.png\<close>; when
  the scene numbers are pairwise distinct so are these names, and the archive then holds,
  under that name, the base64 payload of every scene that has one.
\<close>

theorem export_image_names:
  assumes r: "\<forall>s \<in> set (scenes p). 1 \<le> sceneNumber s \<and> sceneNumber s \<le> 999"
  shows "(\<forall>s \<in> set (scenes p). imageName s = ''scene_'' @ three_digits (sceneNumber s) @ ''.png'')
       \<and> (distinct (map sceneNumber (scenes p)) \<longrightarrow>
            distinct (map imageName (scenes p)) \<and>
            (\<forall>s \<in> set (scenes p). \<forall>b. image_payload s = Some b \<longrightarrow>
               map_of (handleDownloadAssets p)
                 (''scene_'' @ three_digits (sceneNumber s) @ ''.png'') = Some (Base64Data b)))"
proof (intro conjI ballI impI allI)
  fix s assume "s \<in> set (scenes p)"
  with r show "imageName s = ''scene_'' @ three_digits (sceneNumber s) @ ''.png''"
    by (simp add: imageName_three_digits)
next
  assume "distinct (map sceneNumber (scenes p))"
  with r show "distinct (map imageName (scenes p))" by (rule imageName_distinct)
next
  fix s b
  assume d: "distinct (map sceneNumber (scenes p))" and s: "s \<in> set (scenes p)"
    and b: "image_payload s = Some b"
  from r d have "distinct (map imageName (scenes p))" by (rule imageName_distinct)
  from fold_exportScene_entry [OF s this b]
  have "map_of (handleDownloadAssets p) (imageName s) = Some (Base64Data b)"
    by (simp add: handleDownloadAssets_def Let_def map_of_zip_file imageName_not_manifest)
  moreover from r s have "imageName s = ''scene_'' @ three_digits (sceneNumber s) @ ''.png''"
    by (simp add: imageName_three_digits)
  ultimately show "map_of (handleDownloadAssets p)
      (''scene_'' @ three_digits (sceneNumber s) @ ''.png'') = Some (Base64Data b)" by simp
qed

text \<open>
  C6, an instance: scenes 12 (with an image) and 1 (without).
\<close>

theorem export_image_names_witness:
  "map sceneNumber (scenes (demo_project [demo_scene ''b'' 12 (Some ''data:image/png;base64,QUJD''), demo_scene ''a'' 1 None]))
     = [12, 1]
   \<and> distinct (map sceneNumber (scenes (demo_project [demo_scene ''b'' 12 (Some ''data:image/png;base64,QUJD''), demo_scene ''a'' 1 None])))
   \<and> map imageName (scenes (demo_project [demo_scene ''b'' 12 (Some ''data:image/png;base64,QUJD''), demo_scene ''a'' 1 None]))
       = [''scene_012.png'', ''scene_001.png'']
   \<and> map_of (handleDownloadAssets (demo_project [demo_scene ''b'' 12 (Some ''data:image/png;base64,QUJD''), demo_scene ''a'' 1 None]))
        ''scene_012.png'' = Some (Base64Data ''QUJD'')"
proof -
  let ?p = "demo_project [demo_scene ''b'' 12 (Some ''data:image/png;base64,QUJD''), demo_scene ''a'' 1 None]"
  have r: "\<forall>s \<in> set (scenes ?p). 1 \<le> sceneNumber s \<and> sceneNumber s \<le> 999"
    by (simp add: demo_project_def demo_scene_def)
  have d: "distinct (map sceneNumber (scenes ?p))"
    by (simp add: demo_project_def demo_scene_def)
  have pay: "image_payload (demo_scene ''b'' 12 (Some ''data:image/png;base64,QUJD'')) = Some ''QUJD''"
    by (simp add: image_payload_def demo_scene_def)
  have t: "three_digits 12 = ''012''" "three_digits 1 = ''001''"
    by (simp_all add: three_digits_def digit_char_def)
  from export_image_names [OF r] d pay t r show ?thesis
    by (simp add: demo_project_def demo_scene_def)
qed

text \<open>
  C10. A scene whose stored payload is a non-empty string with no comma, or with nothing
  between its first comma and the next one or the end, adds no entry to the archive,
  while its manifest entry still names the image file instead of the placeholder. In
  the whole export, when the image names of the project are pairwise distinct, the
  archive has no entry under that scene's image name and the manifest contains the
  entry naming it.
\<close>

theorem export_payload_without_base64:
  assumes url: "generatedImageUrl s = Some u" and ne: "u \<noteq> []"
    and nc: "CHR '','' \<notin> set u \<or> index_opt (split_char CHR '','' u) 1 = Some []"
  shows "exportScene s (z, t) = (z, t @ sceneEntryWith s (imageName s))
       \<and> (s \<in> set (scenes p) \<longrightarrow> distinct (map imageName (scenes p)) \<longrightarrow>
            map_of (handleDownloadAssets p) (imageName s) = None
          \<and> (\<exists>pre post. manifest (handleDownloadAssets p)
                 = Some (TextData (pre @ sceneEntryWith s (imageName s) @ post))))"
proof (intro conjI impI)
  have pay: "image_payload s = None"
    using nc by (auto simp: image_payload_def url split_char_no_sep)
  have ent: "sceneEntry s = sceneEntryWith s (imageName s)"
    by (simp add: sceneEntry_def url ne)
  have "fst (exportScene s (z, t)) = z" by (simp add: exportScene_fst pay)
  moreover have "snd (exportScene s (z, t)) = t @ sceneEntryWith s (imageName s)"
    by (simp add: exportScene_snd ent)
  ultimately show "exportScene s (z, t) = (z, t @ sceneEntryWith s (imageName s))"
    by (simp add: prod_eq_iff)
  {
    assume s: "s \<in> set (scenes p)" and d: "distinct (map imageName (scenes p))"
    have "\<forall>x \<in> set (scenes p). imageName x = imageName s \<longrightarrow> image_payload x = None"
    proof (intro ballI impI)
      fix x assume "x \<in> set (scenes p)" "imageName x = imageName s"
      with s d have "x = s" by (auto simp: distinct_map inj_on_def)
      with pay show "image_payload x = None" by simp
    qed
    then have "map_of (fst (fold exportScene (scenes p) ([], scriptHeader p))) (imageName s)
                 = map_of (fst (([], scriptHeader p) :: JSZip \<times> string)) (imageName s)"
      by (rule fold_exportScene_untouched)
    then show "map_of (handleDownloadAssets p) (imageName s) = None"
      by (simp add: handleDownloadAssets_def Let_def map_of_zip_file imageName_not_manifest)
    from s obtain ys zs where "scenes p = ys @ s # zs" by (auto simp: in_set_conv_decomp)
    then have "manifest (handleDownloadAssets p)
        = Some (TextData ((scriptHeader p @ concat (map sceneEntry ys))
             @ sceneEntryWith s (imageName s) @ concat (map sceneEntry zs)))"
      by (simp add: manifest_text ent)
    then show "\<exists>pre post. manifest (handleDownloadAssets p)
                 = Some (TextData (pre @ sceneEntryWith s (imageName s) @ post))"
      by blast
  }
qed

text \<open>
  C10, an instance: the payload \<open>QUJD\<close> carries no data-URI prefix and no comma.
\<close>

theorem export_payload_without_base64_witness:
  "generatedImageUrl (demo_scene ''a'' 7 (Some ''QUJD'')) = Some ''QUJD'' \<and> ''QUJD'' \<noteq> []
   \<and> CHR '','' \<notin> set ''QUJD''
   \<and> demo_scene ''a'' 7 (Some ''QUJD'') \<in> set (scenes (demo_project [demo_scene ''a'' 7 (Some ''QUJD'')]))
   \<and> distinct (map imageName (scenes (demo_project [demo_scene ''a'' 7 (Some ''QUJD'')])))
   \<and> exportScene (demo_scene ''a'' 7 (Some ''QUJD'')) ([], ''x'')
       = ([], ''x'' @ sceneEntryWith (demo_scene ''a'' 7 (Some ''QUJD'')) ''scene_007.png'')
   \<and> map_of (handleDownloadAssets (demo_project [demo_scene ''a'' 7 (Some ''QUJD'')])) ''scene_007.png'' = None"
proof -
  have n: "imageName (demo_scene ''a'' 7 (Some ''QUJD'')) = ''scene_007.png''"
    by (simp add: imageName_def demo_scene_def padStart_def String_of_int_def
          nat_digits.simps digit_char_def numeral_2_eq_2)
  have u: "generatedImageUrl (demo_scene ''a'' 7 (Some ''QUJD'')) = Some ''QUJD''"
    by (simp add: demo_scene_def)
  have c: "CHR '','' \<notin> set ''QUJD'' \<or> index_opt (split_char CHR '','' ''QUJD'') 1 = Some []"
    by simp
  have e: "''QUJD'' \<noteq> []" by simp
  show ?thesis
    using export_payload_without_base64 [OF u e c,
        of "[]" "''x''" "demo_project [demo_scene ''a'' 7 (Some ''QUJD'')]"]
    by (simp add: n u demo_project_def)
qed

section \<open>The character and scene editors\<close>

text \<open>
  C2. When the text parses to an object whose \<open>characters\<close> property is a list
  \<open>A\<close>, the list handed to \<open>onUpdate\<close> is the existing list \<open>L\<close> followed by \<open>A\<close>: its
  length is \<open>length L + length A\<close>, its first \<open>length L\<close> elements are \<open>L\<close> unchanged, and
  no error is set.
\<close>

theorem importCharacters_appends:
  assumes "JSON_parse t = Some (JObj props)" and "map_of props ''characters'' = Some (JArr A)"
  shows "onUpdate_arg (handleImportJson JSON_parse L t) = Some (L @ A)
       \<and> map_option length (onUpdate_arg (handleImportJson JSON_parse L t))
           = Some (length L + length A)
       \<and> map_option (take (length L)) (onUpdate_arg (handleImportJson JSON_parse L t)) = Some L
       \<and> error_set (handleImportJson JSON_parse L t) = None"
  using assms by (simp add: handleImportJson_def)

text \<open>
  C2, an instance: one imported element after two existing ones.
\<close>

theorem importCharacters_appends_witness:
  "JSON_parse_sample (''{'' @ DQ @ ''characters'' @ DQ @ '':[null]}'')
     = Some (JObj [(''characters'', JArr [JNull])])
   \<and> map_of [(''characters'', JArr [JNull :: int json])] ''characters'' = Some (JArr [JNull])
   \<and> onUpdate_arg (handleImportJson JSON_parse_sample [JBool True, JStr ''x'']
         (''{'' @ DQ @ ''characters'' @ DQ @ '':[null]}'')) = Some [JBool True, JStr ''x'', JNull]"
proof -
  have p: "JSON_parse_sample (''{'' @ DQ @ ''characters'' @ DQ @ '':[null]}'')
     = Some (JObj [(''characters'', JArr [JNull])])"
    by (simp add: JSON_parse_sample_def DQ_def)
  have m: "map_of [(''characters'', JArr [JNull :: int json])] ''characters'' = Some (JArr [JNull])"
    by simp
  from importCharacters_appends [where JSON_parse = JSON_parse_sample
      and t = "''{'' @ DQ @ ''characters'' @ DQ @ '':[null]}''"
      and props = "[(''characters'', JArr [JNull])]" and A = "[JNull]"
      and L = "[JBool True, JStr ''x'']", OF p m] p m
  show ?thesis by simp
qed

text \<open>
  C3. The text \<open>null\<close> is valid JSON, and the parsed value has no \<open>characters\<close> field;
  reading the property of \<open>null\<close> throws inside the \<open>try\<close> block, so the handler reports
  \<open>Invalid JSON syntax.\<close> and not the missing \<open>characters\<close> array. (The rest of the
  claim holds: \<open>import_parse_failure\<close>, \<open>import_schema_failure\<close> and
  \<open>import_failure_emits_no_update\<close>.)
\<close>

theorem import_null_reports_syntax_error:
  "JSON_parse_sample ''null'' = Some JNull
   \<and> handleImportJson JSON_parse_sample [] ''null''
       = \<lparr>onUpdate_arg = None, error_set = Some ''Invalid JSON syntax.'', alert_text = None\<rparr>"
  by (simp add: handleImportJson_def JSON_parse_sample_def ParseError_message_def)

text \<open>
  C5. With an identifier that no element of the list carries, \<open>removeCharacter\<close>
  returns the list as it is, \<open>handleSavePrompt\<close> hands back the unchanged project, and
  \<open>handleGenerateImage\<close> either hands back the unchanged project or, when the preview
  fails, hands back nothing and shows the alert.
\<close>

theorem absent_identifier_is_noop:
  "(ident \<notin> char_id ` set L \<longrightarrow> removeCharacter L ident = L)
   \<and> (sid \<notin> scene_id ` set (scenes p) \<longrightarrow> handleSavePrompt p v sid = p)
   \<and> (scene_id sc \<notin> scene_id ` set (scenes p) \<longrightarrow>
        fst (handleGenerateImage k g p sc st) = Inr p
        \<or> fst (handleGenerateImage k g p sc st) = Inl ''Failed to generate image. Try again.'')"
proof (intro conjI impI)
  assume "ident \<notin> char_id ` set L"
  then have "\<forall>c \<in> set L. char_id c \<noteq> ident" by auto
  then show "removeCharacter L ident = L" by (simp add: removeCharacter_def)
next
  assume "sid \<notin> scene_id ` set (scenes p)"
  then have "map (\<lambda>s. if scene_id s = sid then s\<lparr>visualPrompt := v\<rparr> else s) (scenes p) = scenes p"
    by (intro map_idI) auto
  then show "handleSavePrompt p v sid = p" by (simp add: handleSavePrompt_def)
next
  assume "scene_id sc \<notin> scene_id ` set (scenes p)"
  then have "\<And>u. map (\<lambda>s. if scene_id s = scene_id sc then s\<lparr>generatedImageUrl := Some u\<rparr> else s)
                (scenes p) = scenes p"
    by (intro map_idI) (auto simp: image_iff)
  then show "fst (handleGenerateImage k g p sc st) = Inr p
        \<or> fst (handleGenerateImage k g p sc st) = Inl ''Failed to generate image. Try again.''"
    by (simp add: handleGenerateImage_def split: prod.splits sum.splits)
qed

text \<open>
  C5, an instance: the identifier \<open>zz\<close> is in none of the lists, and the preview
  succeeds.
\<close>

theorem absent_identifier_is_noop_witness:
  "''zz'' \<notin> char_id ` set INITIAL_CHARACTERS
   \<and> removeCharacter INITIAL_CHARACTERS ''zz'' = INITIAL_CHARACTERS
   \<and> ''zz'' \<notin> scene_id ` set (scenes (demo_project [demo_scene ''a'' 1 None]))
   \<and> handleSavePrompt (demo_project [demo_scene ''a'' 1 None]) ''new'' ''zz''
       = demo_project [demo_scene ''a'' 1 None]
   \<and> scene_id (demo_scene ''zz'' 9 None) \<notin> scene_id ` set (scenes (demo_project [demo_scene ''a'' 1 None]))
   \<and> fst (handleGenerateImage (Some ''key'')
           (\<lambda>r. Inr \<lparr>response_text = None, candidates = Some [\<lparr>content = Some \<lparr>parts =
               Some [\<lparr>part_text = None, inlineData = Some \<lparr>inline_data = Some ''QUJD''\<rparr>\<rparr>]\<rparr>\<rparr>]\<rparr>)
           (demo_project [demo_scene ''a'' 1 None]) (demo_scene ''zz'' 9 None) demo_service)
       = Inr (demo_project [demo_scene ''a'' 1 None])"
proof -
  have a: "''zz'' \<notin> char_id ` set INITIAL_CHARACTERS"
    by (simp add: INITIAL_CHARACTERS_def)
  have b: "''zz'' \<notin> scene_id ` set (scenes (demo_project [demo_scene ''a'' 1 None]))"
    by (simp add: demo_project_def demo_scene_def)
  have c: "scene_id (demo_scene ''zz'' 9 None)
             \<notin> scene_id ` set (scenes (demo_project [demo_scene ''a'' 1 None]))"
    by (simp add: demo_project_def demo_scene_def)
  have d: "fst (handleGenerateImage (Some ''key'')
           (\<lambda>r. Inr \<lparr>response_text = None, candidates = Some [\<lparr>content = Some \<lparr>parts =
               Some [\<lparr>part_text = None, inlineData = Some \<lparr>inline_data = Some ''QUJD''\<rparr>\<rparr>]\<rparr>\<rparr>]\<rparr>)
           (demo_project [demo_scene ''a'' 1 None]) (demo_scene ''zz'' 9 None) demo_service)
       \<noteq> Inl ''Failed to generate image. Try again.''"
    by (simp add: handleGenerateImage_def generateScenePreview_def getClient_def
          response_parts_def Let_def)
  from absent_identifier_is_noop [of "''zz''" INITIAL_CHARACTERS "''zz''"
      "demo_project [demo_scene ''a'' 1 None]" "''new''" "demo_scene ''zz'' 9 None"
      "Some ''key''"
      "\<lambda>r. Inr \<lparr>response_text = None, candidates = Some [\<lparr>content = Some \<lparr>parts =
               Some [\<lparr>part_text = None, inlineData = Some \<lparr>inline_data = Some ''QUJD''\<rparr>\<rparr>]\<rparr>\<rparr>]\<rparr>"
      demo_service] a b c d
  show ?thesis by simp
qed

section \<open>The project store\<close>

text \<open>
  C4. Creating a project under an identifier that no stored project carries, deleting
  the created project (the deletion being confirmed) and then updating with a project
  of that, now absent, identifier leaves the project list, and the stored snapshot of
  it, exactly as they were before the three steps.
\<close>

theorem create_delete_update_roundtrip:
  assumes fresh: "uuid \<notin> proj_id ` set (projects S)"
    and created: "currentProject (handleCreateProject uuid now S) = Some P"
    and same: "proj_id P' = proj_id P"
  shows "projects (updateProject P' (handleDeleteProject True (proj_id P)
           (handleCreateProject uuid now S))) = projects S
       \<and> storage (updateProject P' (handleDeleteProject True (proj_id P)
           (handleCreateProject uuid now S))) = Some (projects S)"
proof -
  from created have idP: "proj_id P = uuid"
    by (auto simp: handleCreateProject_def Let_def)
  have f: "filter (\<lambda>p. proj_id p \<noteq> uuid) (projects S) = projects S"
    using fresh by (auto simp: filter_id_conv)
  have del: "projects (handleDeleteProject True (proj_id P) (handleCreateProject uuid now S))
               = projects S"
    by (simp add: handleDeleteProject_def handleCreateProject_def Let_def idP f)
  have "map (\<lambda>p. if proj_id p = proj_id P' then P' else p) (projects S) = projects S"
    using fresh same idP by (intro map_idI) (auto simp: image_iff)
  then show ?thesis
    using del by (simp add: updateProject_def Let_def)
qed

text \<open>
  C4, an instance: a store holding one project.
\<close>

theorem create_delete_update_roundtrip_witness:
  "''u1'' \<notin> proj_id ` set (projects (demo_app [demo_project []]))
   \<and> (\<exists>P. currentProject (handleCreateProject ''u1'' 5 (demo_app [demo_project []])) = Some P
          \<and> proj_id P = ''u1''
          \<and> length (projects (handleCreateProject ''u1'' 5 (demo_app [demo_project []]))) = 2
          \<and> projects (updateProject P (handleDeleteProject True (proj_id P)
                (handleCreateProject ''u1'' 5 (demo_app [demo_project []]))))
              = [demo_project []])"
proof -
  let ?S = "demo_app [demo_project []]"
  obtain P where P: "currentProject (handleCreateProject ''u1'' 5 ?S) = Some P"
    by (simp add: handleCreateProject_def Let_def)
  have f: "''u1'' \<notin> proj_id ` set (projects ?S)"
    by (simp add: demo_app_def demo_project_def)
  have i: "proj_id P = ''u1''"
    using P by (auto simp: handleCreateProject_def Let_def)
  have l: "length (projects (handleCreateProject ''u1'' 5 ?S)) = 2"
    by (simp add: handleCreateProject_def Let_def demo_app_def)
  have s: "projects ?S = [demo_project []]" by (simp add: demo_app_def)
  from create_delete_update_roundtrip [OF f P refl] have
    "projects (updateProject P (handleDeleteProject True (proj_id P)
        (handleCreateProject ''u1'' 5 ?S))) = [demo_project []]"
    by (simp add: s)
  with f P i l show ?thesis by blast
qed

section \<open>The generation service\<close>

text \<open>
  C7. Without a key (undefined or empty), each of the three operations fails with the
  missing-credential error and leaves the service state as it was: no request has been
  sent to the remote capability.
\<close>

theorem missing_credential_fails_first:
  assumes "\<not> truthy apiKey"
  shows "generateStoryScenes apiKey generateContent JSON_parse randomUUID idea chars style type st
           = (Inl MissingCredential, st)
       \<and> generateScenePreview apiKey generateContent prompt st = (Inl MissingCredential, st)
       \<and> generateProjectIdea apiKey generateContent JSON_parse' randomUUID topic st
           = (Inl MissingCredential, st)"
proof -
  from assms have "getClient apiKey = Inl MissingCredential"
    by (cases apiKey) (simp_all add: getClient_def)
  then show ?thesis
    by (simp add: generateStoryScenes_def generateScenePreview_def generateProjectIdea_def)
qed

text \<open>
  C7, an instance: an empty key and an undefined key.
\<close>

theorem missing_credential_fails_first_witness:
  "\<not> truthy (Some []) \<and> \<not> truthy None
   \<and> generateStoryScenes (Some []) (demo_remote (Some ''[]'')) JSON_parse_sample demo_uuid
        ''idea'' INITIAL_CHARACTERS CLAYMATION LONG demo_service
       = (Inl (Error ''API Key not found in environment variables''), demo_service)
   \<and> generateScenePreview None (demo_remote None) ''A cat'' demo_service
       = (Inl (Error ''API Key not found in environment variables''), demo_service)
   \<and> generateProjectIdea None (demo_remote (Some ''[]'')) JSON_parse_sample demo_uuid None
        demo_service
       = (Inl (Error ''API Key not found in environment variables''), demo_service)"
proof -
  have a: "\<not> truthy (Some [])" and b: "\<not> truthy None" by simp_all
  from missing_credential_fails_first [OF a, where generateContent = "demo_remote (Some ''[]'')"
      and JSON_parse = JSON_parse_sample and JSON_parse' = JSON_parse_sample
      and randomUUID = demo_uuid and idea = "''idea''" and chars = INITIAL_CHARACTERS
      and style = CLAYMATION and type = LONG and st = demo_service and prompt = "''A cat''"
      and topic = None]
    missing_credential_fails_first [OF b, where generateContent = "demo_remote None"
      and JSON_parse = JSON_parse_sample and JSON_parse' = JSON_parse_sample
      and randomUUID = demo_uuid and idea = "''idea''" and chars = INITIAL_CHARACTERS
      and style = CLAYMATION and type = LONG and st = demo_service and prompt = "''A cat''"
      and topic = None]
    missing_credential_fails_first [OF b, where generateContent = "demo_remote (Some ''[]'')"
      and JSON_parse = JSON_parse_sample and JSON_parse' = JSON_parse_sample
      and randomUUID = demo_uuid and idea = "''idea''" and chars = INITIAL_CHARACTERS
      and style = CLAYMATION and type = LONG and st = demo_service and prompt = "''A cat''"
      and topic = None]
  show ?thesis by (simp add: MissingCredential_def)
qed

text \<open>
  C8, as amended. With a key and an answer from the remote capability: when the text
  that is parsed (the response text, or \<open>[]\<close> in place of a missing or empty one) is a
  list, the result is a list of the same length whose \<open>i\<close>-th element carries as \<open>id\<close>
  the \<open>i\<close>-th identifier drawn and, for an object, every other property of the \<open>i\<close>-th
  response record unchanged; the identifiers are pairwise distinct when the drawn
  identifiers are. When the response text is non-empty and does not parse, the
  operation fails with a SyntaxError.
\<close>

theorem story_scenes_postprocessing:
  assumes key: "truthy apiKey"
    and resp: "generateContent (storyRequest idea chars style type) = Inr response"
  shows "(\<forall>items. JSON_parse (or_default (response_text response) ''[]'') = Some (JArr items) \<longrightarrow>
           (\<exists>R. fst (generateStoryScenes apiKey generateContent JSON_parse randomUUID idea chars
                      style type st) = Inr R
              \<and> length R = length items
              \<and> (\<forall>i < length items.
                    get_prop (R ! i) ''id'' = Inr (Some (JStr (randomUUID (uuid_calls st + i))))
                  \<and> (\<forall>props key. items ! i = JObj props \<longrightarrow> key \<noteq> ''id'' \<longrightarrow>
                        get_prop (R ! i) key = get_prop (items ! i) key))
              \<and> (distinct (map randomUUID [uuid_calls st ..< uuid_calls st + length items]) \<longrightarrow>
                    distinct (map (\<lambda>r. get_prop r ''id'') R))))
       \<and> (\<forall>t. response_text response = Some t \<longrightarrow> t \<noteq> [] \<longrightarrow> JSON_parse t = None \<longrightarrow>
             fst (generateStoryScenes apiKey generateContent JSON_parse randomUUID idea chars
                    style type st) = Inl SyntaxError)"
proof (intro conjI allI impI)
  fix items
  assume p: "JSON_parse (or_default (response_text response) ''[]'') = Some (JArr items)"
  let ?R = "add_ids randomUUID (uuid_calls st) items"
  have "fst (generateStoryScenes apiKey generateContent JSON_parse randomUUID idea chars
                      style type st) = Inr ?R"
    using key resp p by (rule story_scenes_parsed)
  moreover have "length ?R = length items" by (rule length_add_ids)
  moreover have "\<forall>i < length items.
       get_prop (?R ! i) ''id'' = Inr (Some (JStr (randomUUID (uuid_calls st + i))))
     \<and> (\<forall>props key. items ! i = JObj props \<longrightarrow> key \<noteq> ''id'' \<longrightarrow>
           get_prop (?R ! i) key = get_prop (items ! i) key)"
    by (simp add: nth_add_ids map_of_set_prop)
  moreover have "distinct (map randomUUID [uuid_calls st ..< uuid_calls st + length items]) \<longrightarrow>
       distinct (map (\<lambda>r. get_prop r ''id'') ?R)"
    by (simp add: add_ids_distinct)
  ultimately show "\<exists>R. fst (generateStoryScenes apiKey generateContent JSON_parse randomUUID
                      idea chars style type st) = Inr R
              \<and> length R = length items
              \<and> (\<forall>i < length items.
                    get_prop (R ! i) ''id'' = Inr (Some (JStr (randomUUID (uuid_calls st + i))))
                  \<and> (\<forall>props key. items ! i = JObj props \<longrightarrow> key \<noteq> ''id'' \<longrightarrow>
                        get_prop (R ! i) key = get_prop (items ! i) key))
              \<and> (distinct (map randomUUID [uuid_calls st ..< uuid_calls st + length items]) \<longrightarrow>
                    distinct (map (\<lambda>r. get_prop r ''id'') R))"
    by blast
next
  fix t
  assume "response_text response = Some t" "t \<noteq> []" "JSON_parse t = None"
  then have "JSON_parse (or_default (response_text response) ''[]'') = None" by simp
  with key resp show "fst (generateStoryScenes apiKey generateContent JSON_parse randomUUID idea
                    chars style type st) = Inl SyntaxError"
    by (rule story_scenes_syntax_error)
qed

text \<open>
  C8, an instance: a response of two scene records, and a response that is not JSON.
\<close>

theorem story_scenes_postprocessing_witness:
  "truthy (Some ''key'')
   \<and> JSON_parse_sample (''[{'' @ DQ @ ''sceneNumber'' @ DQ @ '':1},{'' @ DQ @ ''sceneNumber'' @ DQ @ '':2}]'')
       = Some (JArr [JObj [(''sceneNumber'', JNum 1)], JObj [(''sceneNumber'', JNum 2)]])
   \<and> distinct (map demo_uuid [0 ..< 2])
   \<and> (\<exists>R. fst (generateStoryScenes (Some ''key'')
          (demo_remote (Some (''[{'' @ DQ @ ''sceneNumber'' @ DQ @ '':1},{'' @ DQ @ ''sceneNumber'' @ DQ @ '':2}]'')))
          JSON_parse_sample demo_uuid ''idea'' [] CLAYMATION LONG demo_service) = Inr R
        \<and> length R = 2
        \<and> get_prop (R ! 1) ''id'' = Inr (Some (JStr ''uuid-1''))
        \<and> get_prop (R ! 1) ''sceneNumber'' = Inr (Some (JNum 2))
        \<and> distinct (map (\<lambda>r. get_prop r ''id'') R))
   \<and> JSON_parse_sample ''not json'' = None
   \<and> fst (generateStoryScenes (Some ''key'') (demo_remote (Some ''not json''))
          JSON_parse_sample demo_uuid ''idea'' [] CLAYMATION LONG demo_service) = Inl SyntaxError"
proof -
  let ?t = "''[{'' @ DQ @ ''sceneNumber'' @ DQ @ '':1},{'' @ DQ @ ''sceneNumber'' @ DQ @ '':2}]''"
  let ?items = "[JObj [(''sceneNumber'', JNum 1)], JObj [(''sceneNumber'', JNum (2::int))]]"
  have k: "truthy (Some ''key'')" by simp
  have r: "demo_remote (Some ?t) (storyRequest ''idea'' [] CLAYMATION LONG)
             = Inr \<lparr>response_text = Some ?t, candidates = None\<rparr>"
    by (simp add: demo_remote_def)
  have r': "demo_remote (Some ''not json'') (storyRequest ''idea'' [] CLAYMATION LONG)
             = Inr \<lparr>response_text = Some ''not json'', candidates = None\<rparr>"
    by (simp add: demo_remote_def)
  have p: "JSON_parse_sample ?t = Some (JArr ?items)"
    by (simp add: JSON_parse_sample_def DQ_def)
  have p': "JSON_parse_sample ''not json'' = None"
    by (simp add: JSON_parse_sample_def DQ_def)
  have d: "distinct (map demo_uuid [0 ..< 2])"
    by (simp add: demo_uuid_def nat_digits.simps digit_char_def upt_rec)
  have od: "or_default (response_text \<lparr>response_text = Some ?t, candidates = None\<rparr>) ''[]'' = ?t"
    by (simp add: DQ_def)
  note main = story_scenes_postprocessing [where apiKey = "Some ''key''"
      and generateContent = "demo_remote (Some ?t)" and idea = "''idea''" and chars = "[]"
      and style = CLAYMATION and type = LONG
      and response = "\<lparr>response_text = Some ?t, candidates = None\<rparr>"
      and JSON_parse = JSON_parse_sample and randomUUID = demo_uuid and st = demo_service,
      OF k r]
  from main have "\<exists>R. fst (generateStoryScenes (Some ''key'') (demo_remote (Some ?t))
          JSON_parse_sample demo_uuid ''idea'' [] CLAYMATION LONG demo_service) = Inr R
        \<and> length R = length ?items
        \<and> (\<forall>i < length ?items.
              get_prop (R ! i) ''id'' = Inr (Some (JStr (demo_uuid (uuid_calls demo_service + i))))
            \<and> (\<forall>props key. ?items ! i = JObj props \<longrightarrow> key \<noteq> ''id'' \<longrightarrow>
                  get_prop (R ! i) key = get_prop (?items ! i) key))
        \<and> (distinct (map demo_uuid [uuid_calls demo_service ..< uuid_calls demo_service + length ?items]) \<longrightarrow>
              distinct (map (\<lambda>r. get_prop r ''id'') R))"
    using p od by (simp only:)
  then obtain R where R1: "fst (generateStoryScenes (Some ''key'') (demo_remote (Some ?t))
          JSON_parse_sample demo_uuid ''idea'' [] CLAYMATION LONG demo_service) = Inr R"
    and R2: "length R = length ?items"
    and R3: "\<forall>i < length ?items.
              get_prop (R ! i) ''id'' = Inr (Some (JStr (demo_uuid (uuid_calls demo_service + i))))
            \<and> (\<forall>props key. ?items ! i = JObj props \<longrightarrow> key \<noteq> ''id'' \<longrightarrow>
                  get_prop (R ! i) key = get_prop (?items ! i) key)"
    and R4: "distinct (map demo_uuid [uuid_calls demo_service ..< uuid_calls demo_service + length ?items]) \<longrightarrow>
              distinct (map (\<lambda>r. get_prop r ''id'') R)"
    by blast
  have one: "(1::nat) < length ?items" by simp
  from R3 [rule_format, OF one] have R3a:
    "get_prop (R ! 1) ''id'' = Inr (Some (JStr (demo_uuid (uuid_calls demo_service + 1))))"
    and R3b: "\<forall>props key. ?items ! 1 = JObj props \<longrightarrow> key \<noteq> ''id'' \<longrightarrow>
                  get_prop (R ! 1) key = get_prop (?items ! 1) key"
    by blast+
  from R3b have "get_prop (R ! 1) ''sceneNumber'' = get_prop (?items ! 1) ''sceneNumber''"
    by simp
  then have R3c: "get_prop (R ! 1) ''sceneNumber'' = Inr (Some (JNum 2))" by simp
  have rng: "[uuid_calls demo_service ..< uuid_calls demo_service + length ?items] = [0 ..< 2]"
    by (simp add: demo_service_def upt_rec)
  from R4 have R5: "distinct (map (\<lambda>r. get_prop r ''id'') R)"
    unfolding rng using d by blast
  have R: "fst (generateStoryScenes (Some ''key'') (demo_remote (Some ?t))
          JSON_parse_sample demo_uuid ''idea'' [] CLAYMATION LONG demo_service) = Inr R"
      "length R = 2"
      "get_prop (R ! 1) ''id'' = Inr (Some (JStr (demo_uuid 1)))"
      "get_prop (R ! 1) ''sceneNumber'' = Inr (Some (JNum 2))"
      "distinct (map (\<lambda>r. get_prop r ''id'') R)"
    using R1 R2 R3a R3c R5 by (simp_all add: demo_service_def)
  have u: "demo_uuid 1 = ''uuid-1''"
    by (simp add: demo_uuid_def nat_digits.simps digit_char_def)
  have e: "fst (generateStoryScenes (Some ''key'') (demo_remote (Some ''not json''))
          JSON_parse_sample demo_uuid ''idea'' [] CLAYMATION LONG demo_service) = Inl SyntaxError"
    using story_scenes_postprocessing [where apiKey = "Some ''key''"
      and generateContent = "demo_remote (Some ''not json'')" and idea = "''idea''"
      and chars = "[]" and style = CLAYMATION and type = LONG
      and response = "\<lparr>response_text = Some ''not json'', candidates = None\<rparr>"
      and JSON_parse = JSON_parse_sample and randomUUID = demo_uuid and st = demo_service,
      OF k r'] p'
    by simp
  from R u have "\<exists>R. fst (generateStoryScenes (Some ''key'') (demo_remote (Some ?t))
          JSON_parse_sample demo_uuid ''idea'' [] CLAYMATION LONG demo_service) = Inr R
        \<and> length R = 2
        \<and> get_prop (R ! 1) ''id'' = Inr (Some (JStr ''uuid-1''))
        \<and> get_prop (R ! 1) ''sceneNumber'' = Inr (Some (JNum 2))
        \<and> distinct (map (\<lambda>r. get_prop r ''id'') R)"
    by (intro exI [of _ R]) simp
  with k p d p' e show ?thesis by blast
qed

text \<open>
  C8 as stated fails: the empty response text is not parseable, yet the operation
  returns the empty list.
\<close>

theorem unparseable_empty_text_counterexample:
  "JSON_parse_sample [] = None
   \<and> fst (generateStoryScenes (Some ''key'') (demo_remote (Some [])) JSON_parse_sample demo_uuid
        ''idea'' [] CLAYMATION LONG demo_service) = Inr []"
  by (simp add: generateStoryScenes_def getClient_def demo_remote_def JSON_parse_sample_def
        Let_def demo_service_def)

text \<open>
  C9. With a key and an answer from the remote capability whose text is missing or
  empty, the operation succeeds with the empty scene list, having sent the one request
  and drawn no identifier (\<open>JSON.parse\<close> maps the substituted text \<open>[]\<close> to the empty
  list).
\<close>

theorem empty_response_gives_no_scenes:
  assumes key: "truthy apiKey"
    and resp: "generateContent (storyRequest idea chars style type) = Inr response"
    and empty: "\<not> truthy (response_text response)"
    and parse: "JSON_parse ''[]'' = Some (JArr [])"
  shows "generateStoryScenes apiKey generateContent JSON_parse randomUUID idea chars style type st
           = (Inr [], st\<lparr>requests := requests st @ [storyRequest idea chars style type]\<rparr>)"
  using assms getClient_truthy [of apiKey]
  by (auto simp: generateStoryScenes_def Let_def or_default_falsy)

text \<open>
  C9, an instance: a response without text.
\<close>

theorem empty_response_gives_no_scenes_witness:
  "truthy (Some ''key'') \<and> \<not> truthy (response_text \<lparr>response_text = None, candidates = None\<rparr>)
   \<and> JSON_parse_sample ''[]'' = Some (JArr [])
   \<and> generateStoryScenes (Some ''key'') (demo_remote None) JSON_parse_sample demo_uuid
        ''idea'' [] CLAYMATION LONG demo_service
      = (Inr [], demo_service\<lparr>requests := [storyRequest ''idea'' [] CLAYMATION LONG]\<rparr>)"
proof -
  have k: "truthy (Some ''key'')" by simp
  have r: "demo_remote None (storyRequest ''idea'' [] CLAYMATION LONG)
             = Inr \<lparr>response_text = None, candidates = None\<rparr>"
    by (simp add: demo_remote_def)
  have e: "\<not> truthy (response_text \<lparr>response_text = None, candidates = None\<rparr>)" by simp
  have p: "JSON_parse_sample ''[]'' = Some (JArr [])" by (simp add: JSON_parse_sample_def)
  from empty_response_gives_no_scenes [where apiKey = "Some ''key''"
      and generateContent = "demo_remote None" and idea = "''idea''" and chars = "[]"
      and style = CLAYMATION and type = LONG
      and response = "\<lparr>response_text = None, candidates = None\<rparr>"
      and JSON_parse = JSON_parse_sample and randomUUID = demo_uuid and st = demo_service,
      OF k r e p] k e p
  show ?thesis by (simp add: demo_service_def)
qed

end
